theory Spec2Isabelle
  imports Complex_Main "HOL-Library.Multiset" "HOL-Library.Char_ord" "HOL-Library.List_Lexorder"
begin

section \<open>Data model of the PersonalFinanceDashboard\<close>

text \<open>
  The source keeps its transactions in a pandas DataFrame with the columns
  \<open>Date\<close>, \<open>Amount\<close>, \<open>Category\<close> and \<open>Description\<close>. The embedding keeps the frame
  as the list of its rows, in row order.

  \<^item> A \<open>Date\<close> is a pandas Timestamp: a count of nanoseconds since 1970-01-01 00:00.
    \<open>.dt.date\<close> is the count of whole days (floor division), \<open>.dt.to_period('M')\<close> the
    count of calendar months since 1970-01.
  \<^item> An \<open>Amount\<close> of a \<open>row\<close> is a finite number, an exact rational; where the source
    adds amounts that a statement below compares with a sum, the float64 addition rounds
    (\<open>round64\<close>). Amounts that are NaN or infinite are those of \<open>row64\<close>, in the section on
    the float64 store.
  \<^item> A cell of the object columns \<open>Category\<close> and \<open>Description\<close> is a string, or is
    missing (the NaN that \<open>read_csv\<close> puts in place of an empty field or an NA marker).
\<close>

type_synonym timestamp = int
type_synonym date = int
type_synonym period = int

datatype cell = Text string | Missing

record row =
  Date :: timestamp
  Amount :: rat
  Category :: cell
  Description :: cell

text \<open>
  A line of \<open>finance_data.csv\<close> below the header. The text of a date and of a number is
  identified with the value it denotes (printing and parsing them is taken as lossless);
  the two text fields are kept as the characters written.
\<close>

record csv_line =
  csv_Date :: timestamp
  csv_Amount :: rat
  csv_Category :: string
  csv_Description :: string

text \<open>
  The object state: \<open>self.transactions\<close> and the contents of \<open>self.data_file\<close>
  (\<open>None\<close> while the file does not exist).
\<close>

record dashboard =
  transactions :: "row list"
  data_file :: "csv_line list option"

text \<open>
  Failures. \<open>PandasError\<close> stands for an exception raised inside pandas that the source
  does not catch. \<open>EmptyDataset\<close> and \<open>InvalidCategory\<close> are the error kinds the
  specification names; no statement of the source raises either.
\<close>

datatype error = PandasError | EmptyDataset | InvalidCategory

definition categories :: "string list" where
  "categories = [''Food'', ''Transportation'', ''Housing'', ''Entertainment'',
                 ''Utilities'', ''Shopping'', ''Health'', ''Education'', ''Income'', ''Other'']"

subsection \<open>Calendar arithmetic of pandas\<close>

definition day_ns :: int where
  "day_ns = 86400000000000"

definition date_of :: "timestamp \<Rightarrow> date" where
  "date_of ts = ts div day_ns"

text \<open>Days since 1970-01-01 of a civil date of the proleptic Gregorian calendar, and back.\<close>

definition days_from_civil :: "int \<Rightarrow> int \<Rightarrow> int \<Rightarrow> date" where
  "days_from_civil y m d =
     (let y' = (if m \<le> 2 then y - 1 else y);
          era = y' div 400;
          yoe = y' mod 400;
          doy = (153 * (if m > 2 then m - 3 else m + 9) + 2) div 5 + d - 1;
          doe = yoe * 365 + yoe div 4 - yoe div 100 + doy
      in era * 146097 + doe - 719468)"

definition civil_from_days :: "date \<Rightarrow> int \<times> int \<times> int" where
  "civil_from_days z0 =
     (let z = z0 + 719468;
          era = z div 146097;
          doe = z mod 146097;
          yoe = (doe - doe div 1460 + doe div 36524 - doe div 146096) div 365;
          doy = doe - (365 * yoe + yoe div 4 - yoe div 100);
          mp = (5 * doy + 2) div 153;
          d = doy - (153 * mp + 2) div 5 + 1;
          m = (if mp < 10 then mp + 3 else mp - 9);
          y = yoe + era * 400
      in ((if m \<le> 2 then y + 1 else y), m, d))"

text \<open>A monthly period, as pandas numbers it: months since 1970-01.\<close>

definition Period_M :: "int \<Rightarrow> int \<Rightarrow> period" where
  "Period_M y m = (y - 1970) * 12 + (m - 1)"

definition to_period_M :: "timestamp \<Rightarrow> period" where
  "to_period_M ts = (case civil_from_days (date_of ts) of (y, m, d) \<Rightarrow> Period_M y m)"

text \<open>The Timestamp of midnight of a civil date.\<close>

definition Timestamp :: "int \<Rightarrow> int \<Rightarrow> int \<Rightarrow> timestamp" where
  "Timestamp y m d = days_from_civil y m d * day_ns"

section \<open>TransactionStore\<close>

subsection \<open>\<open>save_data\<close>\<close>

text \<open>
  \<open>to_csv(index=False)\<close>: one line per row, in row order; a missing cell is written as
  the empty field (\<open>na_rep=''\<close>).
\<close>

definition na_rep :: "cell \<Rightarrow> string" where
  "na_rep c = (case c of Text s \<Rightarrow> s | Missing \<Rightarrow> '''')"

definition to_csv :: "row list \<Rightarrow> csv_line list" where
  "to_csv rows =
     map (\<lambda>r. \<lparr>csv_Date = Date r, csv_Amount = Amount r,
                csv_Category = na_rep (Category r),
                csv_Description = na_rep (Description r)\<rparr>) rows"

definition save_data :: "dashboard \<Rightarrow> dashboard" where
  "save_data self = self\<lparr>data_file := Some (to_csv (transactions self))\<rparr>"

subsection \<open>\<open>load_data\<close>\<close>

text \<open>
  \<open>read_csv\<close> with its default \<open>na_values\<close> and \<open>keep_default_na=True\<close>: a text field that
  is empty or is one of the NA markers is read as missing.
\<close>

definition na_values :: "string list" where
  "na_values = ['''', ''#N/A'', ''#N/A N/A'', ''#NA'', ''-1.#IND'', ''-1.#QNAN'', ''-NaN'',
                ''-nan'', ''1.#IND'', ''1.#QNAN'', ''<NA>'', ''N/A'', ''NA'', ''NULL'', ''NaN'',
                ''None'', ''n/a'', ''nan'', ''null'']"

definition read_field :: "string \<Rightarrow> cell" where
  "read_field s = (if s \<in> set na_values then Missing else Text s)"

definition read_csv :: "csv_line list \<Rightarrow> row list" where
  "read_csv ls =
     map (\<lambda>l. \<lparr>Date = csv_Date l, Amount = csv_Amount l,
                Category = read_field (csv_Category l),
                Description = read_field (csv_Description l)\<rparr>) ls"

text \<open>
  The sample of the \<open>else\<close> branch. The clock and the random generator are inputs:
  \<open>now_at k\<close> is the \<open>k\<close>-th reading of \<open>datetime.now()\<close>, \<open>randint_at k\<close> and
  \<open>choice_at k\<close> are the \<open>k\<close>-th raw draws, reduced to \<open>randint(-100, 100)\<close> and to an
  index into \<open>self.categories\<close>.
\<close>

record sample_source =
  now_at :: "nat \<Rightarrow> timestamp"
  randint_at :: "nat \<Rightarrow> nat"
  choice_at :: "nat \<Rightarrow> nat"

definition digit_char :: "nat \<Rightarrow> char" where
  "digit_char n = char_of (48 + n)"

fun str_nat :: "nat \<Rightarrow> string" where
  "str_nat n = (if n < 10 then [digit_char n] else str_nat (n div 10) @ [digit_char (n mod 10)])"

definition sample_dataset :: "sample_source \<Rightarrow> row list" where
  "sample_dataset src =
     map (\<lambda>k. \<lparr>Date = now_at src k - (30 - int k) * day_ns,
                Amount = of_int (- 100 + int (randint_at src k mod 200)),
                Category = Text (categories ! (choice_at src k mod 10)),
                Description = Text (''Sample Transaction '' @ str_nat (k + 1))\<rparr>) [0..<30]"

text \<open>The two masked assignments that close \<open>load_data\<close>.\<close>

definition income_abs :: "row list \<Rightarrow> row list" where
  "income_abs rows =
     map (\<lambda>r. if Category r = Text ''Income'' then r\<lparr>Amount := \<bar>Amount r\<bar>\<rparr> else r) rows"

definition expense_neg_abs :: "row list \<Rightarrow> row list" where
  "expense_neg_abs rows =
     map (\<lambda>r. if Category r \<noteq> Text ''Income'' then r\<lparr>Amount := - \<bar>Amount r\<bar>\<rparr> else r) rows"

definition load_data :: "sample_source \<Rightarrow> csv_line list option \<Rightarrow> dashboard" where
  "load_data src file =
     (let self = (case file of
                    Some ls \<Rightarrow> \<lparr>transactions = read_csv ls, data_file = file\<rparr>
                  | None \<Rightarrow> save_data \<lparr>transactions = sample_dataset src, data_file = None\<rparr>);
          self = self\<lparr>transactions := income_abs (transactions self)\<rparr>;
          self = self\<lparr>transactions := expense_neg_abs (transactions self)\<rparr>
      in self)"

subsection \<open>\<open>add_transaction\<close>\<close>

text \<open>
  The \<open>date\<close> argument is a string or already a Timestamp. \<open>pd.to_datetime\<close> is a
  parameter: it yields the Timestamp a string denotes, or \<open>None\<close> where pandas raises.
\<close>

datatype date_arg = DateStr string | DateTs timestamp

definition sign_amount :: "string \<Rightarrow> rat \<Rightarrow> rat" where
  "sign_amount category amount =
     (if category \<noteq> ''Income'' \<and> amount > 0 then - amount
      else if category = ''Income'' \<and> amount < 0 then \<bar>amount\<bar>
      else amount)"

text \<open>
  \<open>sort_values('Date', ascending=False)\<close>. Rows of equal \<open>Date\<close> keep their relative
  order here; pandas' default sort does not promise an order among them, and no theorem
  below depends on it.
\<close>

definition sort_values_desc :: "row list \<Rightarrow> row list" where
  "sort_values_desc rows = sort_key (\<lambda>r. - Date r) rows"

definition add_transaction ::
  "(string \<Rightarrow> timestamp option) \<Rightarrow> date_arg \<Rightarrow> rat \<Rightarrow> string \<Rightarrow> string \<Rightarrow> dashboard
     \<Rightarrow> error + dashboard" where
  "add_transaction to_datetime date amount category description self =
     (case (case date of DateStr s \<Rightarrow> to_datetime s | DateTs ts \<Rightarrow> Some ts) of
        None \<Rightarrow> Inl PandasError
      | Some ts \<Rightarrow>
          (let amount = sign_amount category amount;
               new_transaction = \<lparr>Date = ts, Amount = amount,
                                  Category = Text category, Description = Text description\<rparr>;
               self = self\<lparr>transactions := transactions self @ [new_transaction]\<rparr>;
               self = self\<lparr>transactions := sort_values_desc (transactions self)\<rparr>
           in Inr (save_data self)))"

section \<open>AggregationEngine\<close>

subsection \<open>The pandas operations the engine is written with\<close>

text \<open>
  A Series is the list of its (index label, value) pairs in index order.
  \<open>groupby(key)[val].sum()\<close> has one entry per distinct key, keys ascending. The value
  of a group is the sum of its values; \<open>groupby_sum64\<close> below is the same grouping with the
  float64 additions of pandas.
\<close>

definition groupby_sum :: "('r \<Rightarrow> 'k::linorder) \<Rightarrow> ('r \<Rightarrow> rat) \<Rightarrow> 'r list \<Rightarrow> ('k \<times> rat) list" where
  "groupby_sum key val rows =
     map (\<lambda>k. (k, sum_list (map val (filter (\<lambda>r. key r = k) rows))))
         (sort (remdups (map key rows)))"





text \<open>
  Float64 addition. A finite float64 value is a rational \<open>m * 2 ^ e\<close> with
  \<open>\<bar>m\<bar> < 2 ^ 53\<close>; \<open>round64 x\<close> is the float64 value nearest to \<open>x\<close>, a tie going to
  the even significand (overflow and subnormal values are outside the model). An IEEE 754
  addition or subtraction is the exact result, rounded. An int64 column adds exactly; that
  is the case of whole amounts below.
\<close>

function ilog2 :: "int \<Rightarrow> int" where
  "ilog2 n = (if n \<le> 1 then 0 else 1 + ilog2 (n div 2))"
  by pat_completeness auto
termination
  by (relation "measure nat") auto

declare ilog2.simps [simp del]

definition round_half_even :: "rat \<Rightarrow> int" where
  "round_half_even x =
     (let f = \<lfloor>x\<rfloor>; d = x - of_int f
      in if d < 1 / 2 then f else if 1 / 2 < d then f + 1 else if even f then f else f + 1)"

text \<open>\<open>binade x\<close> is the exponent \<open>E\<close> with \<open>2 ^ E \<le> \<bar>x\<bar> < 2 ^ (E + 1)\<close>, for \<open>x \<noteq> 0\<close>.\<close>

definition binade :: "rat \<Rightarrow> int" where
  "binade x =
     (case quotient_of \<bar>x\<bar> of (p, q) \<Rightarrow>
        (let k = ilog2 p - ilog2 q
         in if 2 powi k \<le> \<bar>x\<bar> then k else k - 1))"

definition round64 :: "rat \<Rightarrow> rat" where
  "round64 x =
     (if x = 0 then 0
      else (let e = binade x - 52; m = round_half_even (\<bar>x\<bar> / 2 powi e)
            in sgn x * of_int m * 2 powi e))"

definition add64 :: "rat \<Rightarrow> rat \<Rightarrow> rat" where
  "add64 a b = round64 (a + b)"

definition sub64 :: "rat \<Rightarrow> rat \<Rightarrow> rat" where
  "sub64 a b = round64 (a - b)"

text \<open>
  The sum of one group of a float64 column, as the \<open>group_sum\<close> kernel of pandas adds
  it: in row order, with Kahan's compensation
  (\<open>y = val - compensation; t = sumx + y; compensation = t - sumx - y; sumx = t\<close>).
\<close>

definition kahan_add :: "rat \<times> rat \<Rightarrow> rat \<Rightarrow> rat \<times> rat" where
  "kahan_add acc val =
     (case acc of (sumx, compensation) \<Rightarrow>
        (let y = sub64 val compensation;
             t = add64 sumx y;
             compensation = sub64 (sub64 t sumx) y
         in (t, compensation)))"

definition group_sum :: "rat list \<Rightarrow> rat" where
  "group_sum vals = fst (foldl kahan_add (0, 0) vals)"




text \<open>The column \<open>df['Month'] = df['Date'].dt.to_period('M')\<close>.\<close>

definition Month :: "row \<Rightarrow> period" where
  "Month r = to_period_M (Date r)"

text \<open>
  \<open>expenses = df[df['Amount'] < 0].copy(); expenses['Amount'] = abs(expenses['Amount'])\<close>
\<close>

definition expenses_of :: "row list \<Rightarrow> row list" where
  "expenses_of df = map (\<lambda>r. r\<lparr>Amount := \<bar>Amount r\<bar>\<rparr>) (filter (\<lambda>r. Amount r < 0) df)"

text \<open>
  \<open>pivot_table(index='Month', columns='Category', values='Amount', aggfunc='sum',
  fill_value=0)\<close>. The grouping drops the rows whose \<open>Category\<close> is missing; the index is
  the months and the columns are the categories of the rows left, each ascending; a cell
  with no row is \<open>fill_value\<close>. The frame is the list of its rows, each the list of its
  (column, value) cells.
\<close>

fun dropna :: "cell list \<Rightarrow> string list" where
  "dropna [] = []"
| "dropna (Text s # cs) = s # dropna cs"
| "dropna (Missing # cs) = dropna cs"

definition pivot_table_sum :: "row list \<Rightarrow> rat \<Rightarrow> (period \<times> (string \<times> rat) list) list" where
  "pivot_table_sum rows fill_value =
     (let keyed = filter (\<lambda>r. Category r \<noteq> Missing) rows;
          index = sort (remdups (map Month keyed));
          columns = sort (remdups (dropna (map Category keyed)))
      in map (\<lambda>m. (m, map (\<lambda>c. (c, (let grp = filter (\<lambda>r. Month r = m \<and> Category r = Text c) keyed
                                        in if grp = [] then fill_value
                                           else sum_list (map Amount grp)))) columns)) index)"

text \<open>
  The float64 values of the summary frame: a finite number, an infinity or NaN, with the
  IEEE 754 rules for subtraction, division and multiplication that the summary uses
  (finite results are exact here). A zero divisor is the \<open>+0.0\<close> that \<open>fillna(0)\<close> wrote.
\<close>

datatype float64 = Fin rat | PosInf | NegInf | NaN

fun fneg :: "float64 \<Rightarrow> float64" where
  "fneg (Fin a) = Fin (- a)"
| "fneg PosInf = NegInf"
| "fneg NegInf = PosInf"
| "fneg NaN = NaN"

fun fsub :: "float64 \<Rightarrow> float64 \<Rightarrow> float64" where
  "fsub NaN y = NaN"
| "fsub x NaN = NaN"
| "fsub (Fin a) (Fin b) = Fin (a - b)"
| "fsub (Fin a) y = fneg y"
| "fsub PosInf PosInf = NaN"
| "fsub NegInf NegInf = NaN"
| "fsub x y = x"

fun fmul :: "float64 \<Rightarrow> float64 \<Rightarrow> float64" where
  "fmul NaN y = NaN"
| "fmul x NaN = NaN"
| "fmul (Fin a) (Fin b) = Fin (a * b)"
| "fmul (Fin a) y = (if a = 0 then NaN else if a > 0 then y else fneg y)"
| "fmul x (Fin b) = (if b = 0 then NaN else if b > 0 then x else fneg x)"
| "fmul x y = (if x = y then PosInf else NegInf)"

fun fdiv :: "float64 \<Rightarrow> float64 \<Rightarrow> float64" where
  "fdiv NaN y = NaN"
| "fdiv x NaN = NaN"
| "fdiv (Fin a) (Fin b) =
     (if b = 0 then (if a = 0 then NaN else if a > 0 then PosInf else NegInf)
      else Fin (a / b))"
| "fdiv (Fin a) y = Fin 0"
| "fdiv x (Fin b) = (if b < 0 then fneg x else x)"
| "fdiv x y = NaN"

definition fillna :: "float64 \<Rightarrow> float64 \<Rightarrow> float64" where
  "fillna v x = (case x of NaN \<Rightarrow> v | _ \<Rightarrow> x)"

text \<open>
  \<open>pd.DataFrame({'Income': monthly_income, 'Expenses': monthly_expenses})\<close> aligns the
  two Series on the sorted union of their indexes; a label one Series lacks gives NaN.
\<close>

definition index_union :: "('k::linorder \<times> rat) list \<Rightarrow> ('k \<times> rat) list \<Rightarrow> 'k list" where
  "index_union s t = sort (remdups (map fst s @ map fst t))"

definition at_label :: "('k \<times> rat) list \<Rightarrow> 'k \<Rightarrow> float64" where
  "at_label s k = (case map_of s k of Some v \<Rightarrow> Fin v | None \<Rightarrow> NaN)"

record summary =
  Income :: float64
  Expenses :: float64
  Savings :: float64
  Savings_Rate :: float64

text \<open>
  \<open>table.loc[i, c]\<close>: the cell of a frame at the index label \<open>i\<close> and the column \<open>c\<close>,
  \<open>None\<close> where the frame has no such label.
\<close>

definition loc :: "('i \<times> ('c \<times> 'v) list) list \<Rightarrow> 'i \<Rightarrow> 'c \<Rightarrow> 'v option" where
  "loc table i c = (case map_of table i of None \<Rightarrow> None | Some cells \<Rightarrow> map_of cells c)"

subsection \<open>\<open>get_balance_over_time_history\<close>\<close>


subsection \<open>\<open>get_monthly_spending_by_category\<close>\<close>

definition get_monthly_spending_by_category ::
  "dashboard \<Rightarrow> (period \<times> (string \<times> rat) list) list" where
  "get_monthly_spending_by_category self =
     (let df = transactions self;
          expenses = expenses_of df;
          monthly_by_category = pivot_table_sum expenses 0
      in monthly_by_category)"

subsection \<open>\<open>get_income_vs_expenses_chart\<close>\<close>

text \<open>
  The source computes the frame column by column; each column operation acts on every
  row alone, so the frame is built here row by row, the columns in the source's order.
\<close>

definition get_income_vs_expenses_chart :: "dashboard \<Rightarrow> (period \<times> summary) list" where
  "get_income_vs_expenses_chart self =
     (let df = transactions self;
          expenses = expenses_of df;
          income = filter (\<lambda>r. Amount r > 0) df;
          monthly_expenses = groupby_sum Month Amount expenses;
          monthly_income = groupby_sum Month Amount income
      in map (\<lambda>m.
            (let inc = fillna (Fin 0) (at_label monthly_income m);
                 exp = fillna (Fin 0) (at_label monthly_expenses m);
                 sav = fsub inc exp;
                 rate = fillna (Fin 0) (fmul (fdiv sav inc) (Fin 100))
             in (m, \<lparr>Income = inc, Expenses = exp, Savings = sav, Savings_Rate = rate\<rparr>)))
           (index_union monthly_income monthly_expenses))"

section \<open>TransactionStore, the amounts as float64\<close>

text \<open>
  The \<open>Amount\<close> column is float64, and the store keeps whatever float64 value it is given:
  \<open>float(amount_str)\<close> of the command loop accepts \<open>nan\<close>, \<open>inf\<close> and \<open>-inf\<close>, and \<open>read_csv\<close>
  reads an empty \<open>Amount\<close> field as NaN. The store of the section \<open>TransactionStore\<close> holds
  finite amounts only. This section repeats it, statement for statement, over \<open>float64\<close>,
  with the comparisons and the \<open>abs\<close> of IEEE 754: a comparison with NaN is false, and the
  negation and the absolute value of NaN are NaN. \<open>Fin 0\<close> stands for both zeros, which
  compare equal.
\<close>

record row64 =
  Date64 :: timestamp
  Amount64 :: float64
  Category64 :: cell
  Description64 :: cell

record csv_line64 =
  csv_Date64 :: timestamp
  csv_Amount64 :: float64
  csv_Category64 :: string
  csv_Description64 :: string

record dashboard64 =
  transactions64 :: "row64 list"
  data_file64 :: "csv_line64 list option"

text \<open>\<open>x < y\<close>, \<open>x <= y\<close> and \<open>abs(x)\<close> on float64.\<close>

fun flt :: "float64 \<Rightarrow> float64 \<Rightarrow> bool" where
  "flt NaN y = False"
| "flt x NaN = False"
| "flt (Fin a) (Fin b) = (a < b)"
| "flt PosInf y = False"
| "flt x PosInf = True"
| "flt x NegInf = False"
| "flt NegInf y = True"

fun fle :: "float64 \<Rightarrow> float64 \<Rightarrow> bool" where
  "fle NaN y = False"
| "fle x NaN = False"
| "fle (Fin a) (Fin b) = (a \<le> b)"
| "fle x PosInf = True"
| "fle NegInf y = True"
| "fle x y = False"

fun fabs :: "float64 \<Rightarrow> float64" where
  "fabs (Fin a) = Fin \<bar>a\<bar>"
| "fabs PosInf = PosInf"
| "fabs NegInf = PosInf"
| "fabs NaN = NaN"

definition to_csv64 :: "row64 list \<Rightarrow> csv_line64 list" where
  "to_csv64 rows =
     map (\<lambda>r. \<lparr>csv_Date64 = Date64 r, csv_Amount64 = Amount64 r,
                csv_Category64 = na_rep (Category64 r),
                csv_Description64 = na_rep (Description64 r)\<rparr>) rows"

definition save_data64 :: "dashboard64 \<Rightarrow> dashboard64" where
  "save_data64 self = self\<lparr>data_file64 := Some (to_csv64 (transactions64 self))\<rparr>"

definition read_csv64 :: "csv_line64 list \<Rightarrow> row64 list" where
  "read_csv64 ls =
     map (\<lambda>l. \<lparr>Date64 = csv_Date64 l, Amount64 = csv_Amount64 l,
                Category64 = read_field (csv_Category64 l),
                Description64 = read_field (csv_Description64 l)\<rparr>) ls"

definition sample_dataset64 :: "sample_source \<Rightarrow> row64 list" where
  "sample_dataset64 src =
     map (\<lambda>k. \<lparr>Date64 = now_at src k - (30 - int k) * day_ns,
                Amount64 = Fin (of_int (- 100 + int (randint_at src k mod 200))),
                Category64 = Text (categories ! (choice_at src k mod 10)),
                Description64 = Text (''Sample Transaction '' @ str_nat (k + 1))\<rparr>) [0..<30]"

definition income_abs64 :: "row64 list \<Rightarrow> row64 list" where
  "income_abs64 rows =
     map (\<lambda>r. if Category64 r = Text ''Income'' then r\<lparr>Amount64 := fabs (Amount64 r)\<rparr> else r)
         rows"

definition expense_neg_abs64 :: "row64 list \<Rightarrow> row64 list" where
  "expense_neg_abs64 rows =
     map (\<lambda>r. if Category64 r \<noteq> Text ''Income'' then r\<lparr>Amount64 := fneg (fabs (Amount64 r))\<rparr>
              else r) rows"

definition load_data64 :: "sample_source \<Rightarrow> csv_line64 list option \<Rightarrow> dashboard64" where
  "load_data64 src file =
     (let self = (case file of
                    Some ls \<Rightarrow> \<lparr>transactions64 = read_csv64 ls, data_file64 = file\<rparr>
                  | None \<Rightarrow> save_data64 \<lparr>transactions64 = sample_dataset64 src,
                                          data_file64 = None\<rparr>);
          self = self\<lparr>transactions64 := income_abs64 (transactions64 self)\<rparr>;
          self = self\<lparr>transactions64 := expense_neg_abs64 (transactions64 self)\<rparr>
      in self)"

definition sign_amount64 :: "string \<Rightarrow> float64 \<Rightarrow> float64" where
  "sign_amount64 category amount =
     (if category \<noteq> ''Income'' \<and> flt (Fin 0) amount then fneg amount
      else if category = ''Income'' \<and> flt amount (Fin 0) then fabs amount
      else amount)"

definition sort_values_desc64 :: "row64 list \<Rightarrow> row64 list" where
  "sort_values_desc64 rows = sort_key (\<lambda>r. - Date64 r) rows"

definition add_transaction64 ::
  "(string \<Rightarrow> timestamp option) \<Rightarrow> date_arg \<Rightarrow> float64 \<Rightarrow> string \<Rightarrow> string \<Rightarrow> dashboard64
     \<Rightarrow> error + dashboard64" where
  "add_transaction64 to_datetime date amount category description self =
     (case (case date of DateStr s \<Rightarrow> to_datetime s | DateTs ts \<Rightarrow> Some ts) of
        None \<Rightarrow> Inl PandasError
      | Some ts \<Rightarrow>
          (let amount = sign_amount64 category amount;
               new_transaction = \<lparr>Date64 = ts, Amount64 = amount,
                                  Category64 = Text category,
                                  Description64 = Text description\<rparr>;
               self = self\<lparr>transactions64 := transactions64 self @ [new_transaction]\<rparr>;
               self = self\<lparr>transactions64 := sort_values_desc64 (transactions64 self)\<rparr>
           in Inr (save_data64 self)))"

text \<open>
  The finite store inside the float64 store: a row, a file line and an object state of
  finite amounts, read as float64.
\<close>

definition fin_row :: "row \<Rightarrow> row64" where
  "fin_row r = \<lparr>Date64 = Date r, Amount64 = Fin (Amount r), Category64 = Category r,
               Description64 = Description r\<rparr>"

definition fin_line :: "csv_line \<Rightarrow> csv_line64" where
  "fin_line l = \<lparr>csv_Date64 = csv_Date l, csv_Amount64 = Fin (csv_Amount l),
                csv_Category64 = csv_Category l, csv_Description64 = csv_Description l\<rparr>"

definition fin_dashboard :: "dashboard \<Rightarrow> dashboard64" where
  "fin_dashboard self = \<lparr>transactions64 = map fin_row (transactions self),
                         data_file64 = map_option (map fin_line) (data_file self)\<rparr>"

section \<open>Predicates of the specification\<close>

text \<open>
  The sign convention as the specification words it: an \<open>Income\<close> amount is strictly
  positive, every other amount is at most 0.
\<close>

definition strict_sign_convention :: "row list \<Rightarrow> bool" where
  "strict_sign_convention rows =
     list_all (\<lambda>r. if Category r = Text ''Income'' then 0 < Amount r else Amount r \<le> 0) rows"



text \<open>
  The states of a dashboard object: \<open>__init__\<close> runs \<open>load_data\<close>, and
  \<open>add_transaction\<close> is the only method that changes the object afterwards.
\<close>

inductive reachable :: "dashboard \<Rightarrow> bool" where
  init: "reachable (load_data src csv)"
| add: "reachable self \<Longrightarrow>
        add_transaction to_datetime date amount category description self = Inr self' \<Longrightarrow>
        reachable self'"

text \<open>
  The sign convention that the two normalisations of the source establish, on float64
  amounts: where the amount of a row is a number, it is at least 0 in a row of category
  \<open>Income\<close> and at most 0 in every other row. A NaN amount meets neither bound.
\<close>

definition sign_convention64 :: "row64 list \<Rightarrow> bool" where
  "sign_convention64 rows =
     list_all (\<lambda>r. if Amount64 r = NaN then True
                   else if Category64 r = Text ''Income'' then fle (Fin 0) (Amount64 r)
                   else fle (Amount64 r) (Fin 0)) rows"

text \<open>The states of a dashboard object, its amounts float64.\<close>

inductive reachable64 :: "dashboard64 \<Rightarrow> bool" where
  init64: "reachable64 (load_data64 src csv)"
| add64: "reachable64 self \<Longrightarrow>
          add_transaction64 to_datetime date amount category description self = Inr self' \<Longrightarrow>
          reachable64 self'"

section \<open>TransactionStore: proofs\<close>


lemma mset_sort_values_desc: "mset (sort_values_desc rows) = mset rows"
  by (simp add: sort_values_desc_def)

lemma transactions_load_csv:
  "transactions (load_data src (Some ls)) = expense_neg_abs (income_abs (read_csv ls))"
  by (simp add: load_data_def Let_def)

lemma add_transaction_Inr:
  assumes "(case date of DateStr s \<Rightarrow> to_datetime s | DateTs t \<Rightarrow> Some t) = Some ts"
  shows "add_transaction to_datetime date amount category description self =
         Inr (save_data (self\<lparr>transactions := sort_values_desc (transactions self @
               [\<lparr>Date = ts, Amount = sign_amount category amount,
                 Category = Text category, Description = Text description\<rparr>])\<rparr>))"
  using assms by (simp add: add_transaction_def Let_def)


text \<open>The definitions that evaluate a concrete run of the store.\<close>

lemmas store_eval =
  add_transaction_def load_data_def read_csv_def income_abs_def expense_neg_abs_def
  read_field_def na_values_def sign_amount_def sort_values_desc_def save_data_def
  to_csv_def na_rep_def Timestamp_def days_from_civil_def day_ns_def

subsection \<open>The finite store inside the float64 store\<close>

text \<open>
  On finite amounts the float64 store does what the finite store does: \<open>load_data\<close> and
  \<open>add_transaction\<close> commute with reading the amounts as float64.
\<close>

lemma load_data64_fin:
  "load_data64 src (map_option (map fin_line) csv) = fin_dashboard (load_data src csv)"
  by (cases csv)
     (auto simp: load_data64_def load_data_def Let_def fin_dashboard_def fin_row_def fin_line_def
        read_csv64_def read_csv_def income_abs64_def income_abs_def expense_neg_abs64_def
        expense_neg_abs_def save_data64_def save_data_def to_csv64_def to_csv_def
        sample_dataset64_def sample_dataset_def comp_def)

lemma sign_amount64_fin: "sign_amount64 category (Fin a) = Fin (sign_amount category a)"
  by (simp add: sign_amount64_def sign_amount_def)

lemma insort_key_map_image:
  "insort_key f (g x) (map g xs) = map g (insort_key (\<lambda>r. f (g r)) x xs)"
  by (induction xs) simp_all

lemma sort_values_desc64_fin:
  "sort_values_desc64 (map fin_row rows) = map fin_row (sort_values_desc rows)"
proof -
  have "sort_key (\<lambda>r. - Date64 r) (map fin_row rows)
        = map fin_row (sort_key (\<lambda>r. - Date64 (fin_row r)) rows)"
    by (induction rows) (simp_all add: insort_key_map_image)
  then show ?thesis
    by (simp add: sort_values_desc64_def sort_values_desc_def fin_row_def)
qed

lemma to_csv64_fin: "to_csv64 (map fin_row rows) = map fin_line (to_csv rows)"
  by (simp add: to_csv64_def to_csv_def fin_row_def fin_line_def)

lemma add_transaction64_fin:
  "add_transaction64 to_datetime date (Fin amount) category description (fin_dashboard self)
     = map_sum id fin_dashboard
         (add_transaction to_datetime date amount category description self)"
proof (cases "case date of DateStr s \<Rightarrow> to_datetime s | DateTs ts \<Rightarrow> Some ts")
  case None
  then show ?thesis by (simp add: add_transaction64_def add_transaction_def)
next
  case (Some ts)
  let ?new = "\<lparr>Date = ts, Amount = sign_amount category amount, Category = Text category,
               Description = Text description\<rparr>"
  have new: "\<lparr>Date64 = ts, Amount64 = sign_amount64 category (Fin amount),
              Category64 = Text category, Description64 = Text description\<rparr> = fin_row ?new"
    by (simp add: fin_row_def sign_amount64_fin)
  have rows: "sort_values_desc64 (map fin_row (transactions self) @ [fin_row ?new])
              = map fin_row (sort_values_desc (transactions self @ [?new]))"
    using sort_values_desc64_fin[of "transactions self @ [?new]"] by simp
  show ?thesis
    using Some
    by (simp add: add_transaction64_def add_transaction_def Let_def new rows to_csv64_fin
          save_data64_def save_data_def fin_dashboard_def)
qed

subsection \<open>The sign convention\<close>

lemma set_sort_values_desc64: "set (sort_values_desc64 rows) = set rows"
  by (simp add: sort_values_desc64_def)

lemma fabs_ok: "fabs a \<noteq> NaN \<Longrightarrow> fle (Fin 0) (fabs a)"
  by (cases a) simp_all

lemma fneg_fabs_ok: "fneg (fabs a) \<noteq> NaN \<Longrightarrow> fle (fneg (fabs a)) (Fin 0)"
  by (cases a) simp_all

lemma fabs_NaN: "fabs a = NaN \<longleftrightarrow> a = NaN"
  by (cases a) simp_all

lemma fneg_NaN: "fneg a = NaN \<longleftrightarrow> a = NaN"
  by (cases a) simp_all

lemma sign_convention64_load: "sign_convention64 (transactions64 (load_data64 src csv))"
proof -
  have "sign_convention64 (expense_neg_abs64 (income_abs64 rows))" for rows
    by (auto simp: sign_convention64_def income_abs64_def expense_neg_abs64_def list_all_iff
          fabs_ok fneg_fabs_ok)
  then show ?thesis
    by (cases csv) (simp_all add: load_data64_def Let_def save_data64_def)
qed

lemma sign_amount64_ok:
  "sign_amount64 category amount = NaN
   \<or> (if category = ''Income'' then fle (Fin 0) (sign_amount64 category amount)
       else fle (sign_amount64 category amount) (Fin 0))"
  by (cases amount) (auto simp: sign_amount64_def)

lemma sign_convention64_add:
  assumes "sign_convention64 (transactions64 self)"
      and "add_transaction64 to_datetime date amount category description self = Inr self'"
  shows "sign_convention64 (transactions64 self')"
  using assms sign_amount64_ok[of category amount]
  by (auto simp: add_transaction64_def Let_def save_data64_def sign_convention64_def list_all_iff
        set_sort_values_desc64 split: option.splits if_splits)

lemma sign_amount64_NaN: "sign_amount64 category NaN = NaN"
  by (simp add: sign_amount64_def)


text \<open>The definitions that evaluate a concrete run of the float64 store.\<close>

lemmas store_eval64 =
  add_transaction64_def load_data64_def read_csv64_def income_abs64_def expense_neg_abs64_def
  read_field_def na_values_def sign_amount64_def sort_values_desc64_def save_data64_def
  to_csv64_def na_rep_def Timestamp_def days_from_civil_def day_ns_def Let_def

text \<open>
  C2, as the code has it. In every state of the dashboard (after \<open>load_data\<close>, and after
  any number of calls of \<open>add_transaction\<close>) every row whose amount is a number keeps the
  sign convention: the amount is at least 0 where the category is \<open>Income\<close> and at most 0
  in every other row. The bound for \<open>Income\<close> is not strict: \<open>abs\<close> leaves an amount of 0 at
  0. A NaN amount is outside the convention: both comparisons of the sign normalisation
  are false on NaN, so \<open>add_transaction\<close> stores the row with its amount NaN, for every
  category, and NaN is neither at least 0 nor at most 0.
\<close>

theorem sign_convention64_reachable:
  "(reachable64 self \<longrightarrow> sign_convention64 (transactions64 self))
   \<and> sign_amount64 category NaN = NaN
   \<and> (\<exists>self'. add_transaction64 to_datetime (DateTs ts) NaN category description self = Inr self'
         \<and> \<lparr>Date64 = ts, Amount64 = NaN, Category64 = Text category,
            Description64 = Text description\<rparr> \<in> set (transactions64 self'))
   \<and> \<not> fle (Fin 0) NaN \<and> \<not> fle NaN (Fin 0)"
proof (intro conjI impI)
  assume "reachable64 self"
  then show "sign_convention64 (transactions64 self)"
    by (induction rule: reachable64.induct)
       (auto intro: sign_convention64_load sign_convention64_add)
next
  show "\<exists>self'. add_transaction64 to_datetime (DateTs ts) NaN category description self = Inr self'
         \<and> \<lparr>Date64 = ts, Amount64 = NaN, Category64 = Text category,
            Description64 = Text description\<rparr> \<in> set (transactions64 self')"
    by (simp add: add_transaction64_def Let_def save_data64_def set_sort_values_desc64
          sign_amount64_NaN)
qed (simp_all add: sign_amount64_NaN)

text \<open>
  A run for C2: the file holds an \<open>Income\<close> line of amount \<open>-5\<close>; \<open>load_data\<close> makes it
  \<open>5\<close>; \<open>add_transaction\<close> of NaN for \<open>Food\<close> stores NaN, and \<open>add_transaction\<close> of \<open>200\<close>
  for \<open>Food\<close> stores \<open>-200\<close>.
\<close>

theorem sign_convention64_reachable_witness:
  "reachable64
     \<lparr>transactions64 =
        [\<lparr>Date64 = Timestamp 2024 3 1, Amount64 = Fin 5, Category64 = Text ''Income'',
          Description64 = Text ''pay''\<rparr>,
         \<lparr>Date64 = Timestamp 2024 2 15, Amount64 = NaN, Category64 = Text ''Food'',
          Description64 = Text ''snack''\<rparr>,
         \<lparr>Date64 = Timestamp 2024 2 1, Amount64 = Fin (- 200), Category64 = Text ''Food'',
          Description64 = Text ''dinner''\<rparr>],
      data_file64 = Some
        [\<lparr>csv_Date64 = Timestamp 2024 3 1, csv_Amount64 = Fin 5, csv_Category64 = ''Income'',
          csv_Description64 = ''pay''\<rparr>,
         \<lparr>csv_Date64 = Timestamp 2024 2 15, csv_Amount64 = NaN, csv_Category64 = ''Food'',
          csv_Description64 = ''snack''\<rparr>,
         \<lparr>csv_Date64 = Timestamp 2024 2 1, csv_Amount64 = Fin (- 200), csv_Category64 = ''Food'',
          csv_Description64 = ''dinner''\<rparr>]\<rparr>
   \<and> sign_convention64
        [\<lparr>Date64 = Timestamp 2024 3 1, Amount64 = Fin 5, Category64 = Text ''Income'',
          Description64 = Text ''pay''\<rparr>,
         \<lparr>Date64 = Timestamp 2024 2 15, Amount64 = NaN, Category64 = Text ''Food'',
          Description64 = Text ''snack''\<rparr>,
         \<lparr>Date64 = Timestamp 2024 2 1, Amount64 = Fin (- 200), Category64 = Text ''Food'',
          Description64 = Text ''dinner''\<rparr>]"
proof -
  let ?src = "\<lparr>now_at = (\<lambda>k. 0), randint_at = (\<lambda>k. 0), choice_at = (\<lambda>k. 0)\<rparr>"
  let ?csv = "Some [\<lparr>csv_Date64 = Timestamp 2024 3 1, csv_Amount64 = Fin (- 5),
                     csv_Category64 = ''Income'', csv_Description64 = ''pay''\<rparr>]"
  let ?S1 = "\<lparr>transactions64 =
        [\<lparr>Date64 = Timestamp 2024 3 1, Amount64 = Fin 5, Category64 = Text ''Income'',
          Description64 = Text ''pay''\<rparr>,
         \<lparr>Date64 = Timestamp 2024 2 15, Amount64 = NaN, Category64 = Text ''Food'',
          Description64 = Text ''snack''\<rparr>],
      data_file64 = Some
        [\<lparr>csv_Date64 = Timestamp 2024 3 1, csv_Amount64 = Fin 5, csv_Category64 = ''Income'',
          csv_Description64 = ''pay''\<rparr>,
         \<lparr>csv_Date64 = Timestamp 2024 2 15, csv_Amount64 = NaN, csv_Category64 = ''Food'',
          csv_Description64 = ''snack''\<rparr>]\<rparr>"
  let ?S = "\<lparr>transactions64 =
        [\<lparr>Date64 = Timestamp 2024 3 1, Amount64 = Fin 5, Category64 = Text ''Income'',
          Description64 = Text ''pay''\<rparr>,
         \<lparr>Date64 = Timestamp 2024 2 15, Amount64 = NaN, Category64 = Text ''Food'',
          Description64 = Text ''snack''\<rparr>,
         \<lparr>Date64 = Timestamp 2024 2 1, Amount64 = Fin (- 200), Category64 = Text ''Food'',
          Description64 = Text ''dinner''\<rparr>],
      data_file64 = Some
        [\<lparr>csv_Date64 = Timestamp 2024 3 1, csv_Amount64 = Fin 5, csv_Category64 = ''Income'',
          csv_Description64 = ''pay''\<rparr>,
         \<lparr>csv_Date64 = Timestamp 2024 2 15, csv_Amount64 = NaN, csv_Category64 = ''Food'',
          csv_Description64 = ''snack''\<rparr>,
         \<lparr>csv_Date64 = Timestamp 2024 2 1, csv_Amount64 = Fin (- 200), csv_Category64 = ''Food'',
          csv_Description64 = ''dinner''\<rparr>]\<rparr>"
  have "add_transaction64 (\<lambda>s. None) (DateTs (Timestamp 2024 2 15)) NaN ''Food'' ''snack''
          (load_data64 ?src ?csv) = Inr ?S1"
    by (simp add: store_eval64)
  then have r1: "reachable64 ?S1"
    by (rule reachable64.add64[OF reachable64.init64])
  have "add_transaction64 (\<lambda>s. None) (DateTs (Timestamp 2024 2 1)) (Fin 200) ''Food'' ''dinner''
          ?S1 = Inr ?S"
    by (simp add: store_eval64)
  then have r: "reachable64 ?S"
    by (rule reachable64.add64[OF r1])
  from sign_convention64_reachable[where self = ?S, THEN conjunct1] r show ?thesis by simp
qed

text \<open>
  C2 as the specification words it fails: a file line of category \<open>Income\<close> and amount
  \<open>0\<close> is loaded with amount \<open>0\<close>, which is not strictly positive.
\<close>

theorem strict_sign_convention_counterexample:
  "\<not> strict_sign_convention
        (transactions
          (load_data \<lparr>now_at = (\<lambda>k. 0), randint_at = (\<lambda>k. 0), choice_at = (\<lambda>k. 0)\<rparr>
             (Some [\<lparr>csv_Date = Timestamp 2024 3 1, csv_Amount = 0,
                     csv_Category = ''Income'', csv_Description = ''gift''\<rparr>])))"
  by (simp add: strict_sign_convention_def load_data_def read_csv_def income_abs_def
        expense_neg_abs_def read_field_def na_values_def)

text \<open>
  C10. An amount of exactly 0 stays 0 for every category, \<open>Income\<close> included: neither
  branch of the sign normalisation of \<open>add_transaction\<close> fires, so the call stores a row
  of amount 0; the normalisation of \<open>load_data\<close> maps an amount of 0 to 0; and so a
  dashboard can hold an \<open>Income\<close> row of amount 0.
\<close>

theorem zero_amount_is_kept:
  "sign_amount category 0 = 0
   \<and> (\<exists>self'. add_transaction to_datetime (DateTs ts) 0 category description self = Inr self'
         \<and> mset (transactions self') =
             add_mset \<lparr>Date = ts, Amount = 0, Category = Text category,
                        Description = Text description\<rparr> (mset (transactions self)))
   \<and> (\<forall>i < length ls. csv_Amount (ls ! i) = 0 \<longrightarrow>
          Amount (transactions (load_data src (Some ls)) ! i) = 0)
   \<and> (\<exists>self. reachable self \<and>
          (\<exists>r \<in> set (transactions self). Category r = Text ''Income'' \<and> Amount r = 0))"
proof (intro conjI)
  show "sign_amount category 0 = 0"
    by (simp add: sign_amount_def)
  show "\<exists>self'. add_transaction to_datetime (DateTs ts) 0 category description self = Inr self'
         \<and> mset (transactions self') =
             add_mset \<lparr>Date = ts, Amount = 0, Category = Text category,
                        Description = Text description\<rparr> (mset (transactions self))"
    by (simp add: add_transaction_Inr[where ts = ts] save_data_def mset_sort_values_desc
          sign_amount_def)
  show "\<forall>i < length ls. csv_Amount (ls ! i) = 0 \<longrightarrow>
          Amount (transactions (load_data src (Some ls)) ! i) = 0"
    by (simp add: transactions_load_csv expense_neg_abs_def income_abs_def read_csv_def)
  let ?src = "\<lparr>now_at = (\<lambda>k. 0), randint_at = (\<lambda>k. 0), choice_at = (\<lambda>k. 0)\<rparr>"
  let ?l = "\<lparr>csv_Date = 0, csv_Amount = 0, csv_Category = ''Income'',
             csv_Description = ''gift''\<rparr>"
  have "reachable (load_data ?src (Some [?l]))"
    by (rule reachable.init)
  moreover have "\<exists>r \<in> set (transactions (load_data ?src (Some [?l]))).
                   Category r = Text ''Income'' \<and> Amount r = 0"
    by (simp add: store_eval)
  ultimately show "\<exists>self. reachable self \<and>
          (\<exists>r \<in> set (transactions self). Category r = Text ''Income'' \<and> Amount r = 0)"
    by blast
qed

theorem zero_amount_is_kept_witness:
  "sign_amount ''Income'' 0 = 0
   \<and> Amount (transactions
        (load_data \<lparr>now_at = (\<lambda>k. 0), randint_at = (\<lambda>k. 0), choice_at = (\<lambda>k. 0)\<rparr>
           (Some [\<lparr>csv_Date = Timestamp 2024 3 1, csv_Amount = 0, csv_Category = ''Income'',
                   csv_Description = ''gift''\<rparr>])) ! 0) = 0"
  using zero_amount_is_kept[where category = "''Income''"
      and src = "\<lparr>now_at = (\<lambda>k. 0), randint_at = (\<lambda>k. 0), choice_at = (\<lambda>k. 0)\<rparr>"
      and ls = "[\<lparr>csv_Date = Timestamp 2024 3 1, csv_Amount = 0, csv_Category = ''Income'',
                  csv_Description = ''gift''\<rparr>]"]
  by simp

subsection \<open>Categories outside the fixed list\<close>






subsection \<open>What \<open>add_transaction\<close> stores\<close>



section \<open>AggregationEngine: proofs\<close>

subsection \<open>The pandas operations\<close>





lemma map_of_map_graph:
  "map_of (map (\<lambda>k. (k, f k)) ks) k = (if k \<in> set ks then Some (f k) else None)"
  by (induction ks) auto


lemma map_of_groupby_sum:
  "map_of (groupby_sum key val rows) k =
     (if k \<in> key ` set rows then Some (sum_list (map val (filter (\<lambda>r. key r = k) rows)))
      else None)"
  by (simp add: groupby_sum_def map_of_map_graph)





subsection \<open>The balance history of an empty store\<close>




subsection \<open>Float64 sums that are exact\<close>



























subsection \<open>The balance history of a store with transactions\<close>



subsection \<open>The last balance and the sum of the amounts\<close>







subsection \<open>The monthly matrix of spending by category\<close>

lemma set_dropna: "set (dropna cs) = {s. Text s \<in> set cs}"
  by (induction cs rule: dropna.induct) auto

lemma Month_Amount_update: "Month (r\<lparr>Amount := a\<rparr>) = Month r"
  by (simp add: Month_def)

lemma keyed_expenses:
  "filter (\<lambda>r. Category r \<noteq> Missing) (expenses_of df) =
   map (\<lambda>r. r\<lparr>Amount := \<bar>Amount r\<bar>\<rparr>) (filter (\<lambda>r. Amount r < 0 \<and> Category r \<noteq> Missing) df)"
  by (simp add: expenses_of_def filter_map comp_def)

lemma group_filter:
  "filter (\<lambda>r. Month r = m \<and> Category r = Text c)
      (map (\<lambda>r. r\<lparr>Amount := \<bar>Amount r\<bar>\<rparr>) (filter (\<lambda>r. Amount r < 0 \<and> Category r \<noteq> Missing) df)) =
   map (\<lambda>r. r\<lparr>Amount := \<bar>Amount r\<bar>\<rparr>) (filter (\<lambda>r. Amount r < 0 \<and> Month r = m \<and> Category r = Text c) df)"
  by (induction df) (auto simp: Month_Amount_update)

lemma group_sum:
  "sum_list (map Amount (filter (\<lambda>r. Month r = m \<and> Category r = Text c)
      (map (\<lambda>r. r\<lparr>Amount := \<bar>Amount r\<bar>\<rparr>) (filter (\<lambda>r. Amount r < 0 \<and> Category r \<noteq> Missing) df)))) =
   sum_list (map (\<lambda>r. \<bar>Amount r\<bar>) (filter (\<lambda>r. Amount r < 0 \<and> Month r = m \<and> Category r = Text c) df))"
  by (simp add: group_filter comp_def)

lemma groupby_index:
  "sort (remdups (map Month (map (\<lambda>r. r\<lparr>Amount := \<bar>Amount r\<bar>\<rparr>)
       (filter (\<lambda>r. Amount r < 0 \<and> Category r \<noteq> Missing) df)))) =
   sorted_list_of_set (Month ` {r \<in> set df. Amount r < 0 \<and> Category r \<noteq> Missing})"
proof -
  have "set (map Month (map (\<lambda>r. r\<lparr>Amount := \<bar>Amount r\<bar>\<rparr>)
          (filter (\<lambda>r. Amount r < 0 \<and> Category r \<noteq> Missing) df))) =
        Month ` {r \<in> set df. Amount r < 0 \<and> Category r \<noteq> Missing}"
    by (auto simp: Month_Amount_update image_iff)
  then show ?thesis
    by (simp only: sorted_list_of_set_sort_remdups[symmetric])
qed

lemma groupby_columns:
  "sort (remdups (dropna (map Category (map (\<lambda>r. r\<lparr>Amount := \<bar>Amount r\<bar>\<rparr>)
       (filter (\<lambda>r. Amount r < 0 \<and> Category r \<noteq> Missing) df))))) =
   sorted_list_of_set {c. \<exists>r \<in> set df. Amount r < 0 \<and> Category r = Text c}"
proof -
  have "set (dropna (map Category (map (\<lambda>r. r\<lparr>Amount := \<bar>Amount r\<bar>\<rparr>)
          (filter (\<lambda>r. Amount r < 0 \<and> Category r \<noteq> Missing) df)))) =
        {c. \<exists>r \<in> set df. Amount r < 0 \<and> Category r = Text c}"
    by (auto simp: set_dropna image_iff)
  then show ?thesis
    by (simp only: sorted_list_of_set_sort_remdups[symmetric])
qed

lemma pivot_cell:
  "(if filter (\<lambda>r. Month r = m \<and> Category r = Text c)
         (map (\<lambda>r. r\<lparr>Amount := \<bar>Amount r\<bar>\<rparr>)
            (filter (\<lambda>r. Amount r < 0 \<and> Category r \<noteq> Missing) df)) = []
    then 0
    else sum_list (map Amount (filter (\<lambda>r. Month r = m \<and> Category r = Text c)
         (map (\<lambda>r. r\<lparr>Amount := \<bar>Amount r\<bar>\<rparr>)
            (filter (\<lambda>r. Amount r < 0 \<and> Category r \<noteq> Missing) df))))) =
   sum_list (map (\<lambda>r. \<bar>Amount r\<bar>)
      (filter (\<lambda>r. Amount r < 0 \<and> Month r = m \<and> Category r = Text c) df))"
proof -
  have skip: "(if xs = [] then 0 else sum_list (map Amount xs)) = sum_list (map Amount xs)" for xs
    by simp
  show ?thesis
    by (subst skip) (rule group_sum)
qed

lemma pivot_table_sum_expenses:
  "pivot_table_sum (expenses_of df) 0 =
     map (\<lambda>m. (m, map (\<lambda>c. (c, sum_list (map (\<lambda>r. \<bar>Amount r\<bar>)
                    (filter (\<lambda>r. Amount r < 0 \<and> Month r = m \<and> Category r = Text c) df))))
                  (sorted_list_of_set {c. \<exists>r \<in> set df. Amount r < 0 \<and> Category r = Text c})))
         (sorted_list_of_set (Month ` {r \<in> set df. Amount r < 0 \<and> Category r \<noteq> Missing}))"
  unfolding pivot_table_sum_def keyed_expenses Let_def
  by (simp only: groupby_index groupby_columns pivot_cell)

text \<open>Months of the dates of the concrete runs, evaluated once.\<close>

lemma month_2024_03_05: "to_period_M (Timestamp 2024 3 5) = Period_M 2024 3"
  by code_simp

lemma month_2024_03_20: "to_period_M (Timestamp 2024 3 20) = Period_M 2024 3"
  by code_simp

lemma scenario_E_matrix:
  "get_monthly_spending_by_category
            \<lparr>transactions =
               [\<lparr>Date = Timestamp 2024 3 5, Amount = - 30, Category = Text ''Food'',
                 Description = d1\<rparr>,
                \<lparr>Date = Timestamp 2024 3 20, Amount = - 70, Category = Text ''Food'',
                 Description = d2\<rparr>],
             data_file = csv\<rparr>
           = [(Period_M 2024 3, [(''Food'', 100)])]"
  by (simp add: get_monthly_spending_by_category_def expenses_of_def pivot_table_sum_def
        Month_def month_2024_03_05 month_2024_03_20)

lemma finite_expense_categories:
  "finite {c. \<exists>r \<in> set df. Amount r < 0 \<and> Category r = Text c}"
proof -
  have "{c. \<exists>r \<in> set df. Amount r < 0 \<and> Category r = Text c} \<subseteq>
        set (dropna (map Category df))"
    by (force simp: set_dropna image_iff)
  then show ?thesis
    by (rule finite_subset) simp
qed

lemma loc_graph:
  "loc (map (\<lambda>m. (m, map (\<lambda>c. (c, f m c)) cs)) ms) m c =
     (if m \<in> set ms \<and> c \<in> set cs then Some (f m c) else None)"
  by (simp add: loc_def map_of_map_graph)

text \<open>
  C7. \<open>get_monthly_spending_by_category\<close> looks only at the transactions of negative
  amount (and, as the grouping of pandas does, only at those that have a category). Its
  rows are the months of these transactions, ascending and each once; every row has a
  cell for every category of these transactions, so the matrix is dense; the cell of a
  month and a category is the sum of the absolute values of the negative amounts of that
  month and category, and so it is 0 where the month has no such transaction of that
  category. Scenario E: expenses of \<open>-30\<close> and \<open>-70\<close> in the same month and category
  give the cell \<open>100\<close>.
\<close>

theorem monthly_category_matrix:
  fixes self :: dashboard
  defines "df \<equiv> transactions self"
  defines "months \<equiv> Month ` {r \<in> set df. Amount r < 0 \<and> Category r \<noteq> Missing}"
  defines "cats \<equiv> {c. \<exists>r \<in> set df. Amount r < 0 \<and> Category r = Text c}"
  defines "spent \<equiv> \<lambda>m c. sum_list (map (\<lambda>r. \<bar>Amount r\<bar>)
                      (filter (\<lambda>r. Amount r < 0 \<and> Month r = m \<and> Category r = Text c) df))"
  defines "table \<equiv> get_monthly_spending_by_category self"
  shows "map fst table = sorted_list_of_set months
       \<and> sorted (map fst table) \<and> distinct (map fst table)
       \<and> (\<forall>row \<in> set table. map fst (snd row) = sorted_list_of_set cats)
       \<and> (\<forall>m c. loc table m c = (if m \<in> months \<and> c \<in> cats then Some (spent m c) else None))
       \<and> (\<forall>m c. m \<in> months \<longrightarrow> c \<in> cats \<longrightarrow>
             \<not> (\<exists>r \<in> set df. Amount r < 0 \<and> Month r = m \<and> Category r = Text c) \<longrightarrow>
             loc table m c = Some 0)
       \<and> get_monthly_spending_by_category
            \<lparr>transactions =
               [\<lparr>Date = Timestamp 2024 3 5, Amount = - 30, Category = Text ''Food'',
                 Description = d1\<rparr>,
                \<lparr>Date = Timestamp 2024 3 20, Amount = - 70, Category = Text ''Food'',
                 Description = d2\<rparr>],
             data_file = csv\<rparr>
           = [(Period_M 2024 3, [(''Food'', 100)])]"
proof -
  have fm: "finite months" and fc: "finite cats"
    by (simp_all add: months_def cats_def finite_expense_categories)
  have tab: "table = map (\<lambda>m. (m, map (\<lambda>c. (c, spent m c)) (sorted_list_of_set cats)))
                       (sorted_list_of_set months)"
    unfolding table_def get_monthly_spending_by_category_def Let_def df_def[symmetric]
      pivot_table_sum_expenses months_def cats_def spent_def ..
  have idx: "map fst table = sorted_list_of_set months"
    by (simp add: tab comp_def)
  have cols: "\<forall>row \<in> set table. map fst (snd row) = sorted_list_of_set cats"
    by (auto simp: tab comp_def)
  have cell: "loc table m c = (if m \<in> months \<and> c \<in> cats then Some (spent m c) else None)" for m c
    using fm fc by (simp add: tab loc_graph)
  have zero: "spent m c = 0"
    if "\<not> (\<exists>r \<in> set df. Amount r < 0 \<and> Month r = m \<and> Category r = Text c)" for m c
  proof -
    from that have "filter (\<lambda>r. Amount r < 0 \<and> Month r = m \<and> Category r = Text c) df = []"
      by (auto simp: filter_empty_conv)
    then show ?thesis by (simp add: spent_def)
  qed
  have scen: "get_monthly_spending_by_category
            \<lparr>transactions =
               [\<lparr>Date = Timestamp 2024 3 5, Amount = - 30, Category = Text ''Food'',
                 Description = d1\<rparr>,
                \<lparr>Date = Timestamp 2024 3 20, Amount = - 70, Category = Text ''Food'',
                 Description = d2\<rparr>],
             data_file = csv\<rparr>
           = [(Period_M 2024 3, [(''Food'', 100)])]"
    by (rule scenario_E_matrix)
  from idx cols cell zero scen show ?thesis
    by (simp add: idx cell)
qed

lemma month_2024_02_02: "to_period_M (Timestamp 2024 2 2) = Period_M 2024 2"
  by code_simp

lemma month_2024_02_02_5: "to_period_M (Timestamp 2024 2 2 + 5) = Period_M 2024 2"
  by code_simp

text \<open>
  A run for C7: \<open>Food\<close> is spent on in March only and \<open>Housing\<close> in February only; the
  February row has the cell 0 for \<open>Food\<close>, and the March row the cell 100.
\<close>

theorem monthly_category_matrix_witness:
  "loc (get_monthly_spending_by_category
         \<lparr>transactions =
            [\<lparr>Date = Timestamp 2024 3 20, Amount = - 70, Category = Text ''Food'',
              Description = Text ''dinner''\<rparr>,
             \<lparr>Date = Timestamp 2024 3 5, Amount = - 30, Category = Text ''Food'',
              Description = Text ''lunch''\<rparr>,
             \<lparr>Date = Timestamp 2024 2 2 + 5, Amount = - 7, Category = Text ''Housing'',
              Description = Text ''keys''\<rparr>,
             \<lparr>Date = Timestamp 2024 2 2, Amount = 7, Category = Text ''Income'',
              Description = Text ''tip''\<rparr>],
          data_file = None\<rparr>)
       (Period_M 2024 2) ''Food'' = Some 0
   \<and> loc (get_monthly_spending_by_category
         \<lparr>transactions =
            [\<lparr>Date = Timestamp 2024 3 20, Amount = - 70, Category = Text ''Food'',
              Description = Text ''dinner''\<rparr>,
             \<lparr>Date = Timestamp 2024 3 5, Amount = - 30, Category = Text ''Food'',
              Description = Text ''lunch''\<rparr>,
             \<lparr>Date = Timestamp 2024 2 2 + 5, Amount = - 7, Category = Text ''Housing'',
              Description = Text ''keys''\<rparr>,
             \<lparr>Date = Timestamp 2024 2 2, Amount = 7, Category = Text ''Income'',
              Description = Text ''tip''\<rparr>],
          data_file = None\<rparr>)
       (Period_M 2024 3) ''Food'' = Some 100"
proof -
  let ?S = "\<lparr>transactions =
            [\<lparr>Date = Timestamp 2024 3 20, Amount = - 70, Category = Text ''Food'',
              Description = Text ''dinner''\<rparr>,
             \<lparr>Date = Timestamp 2024 3 5, Amount = - 30, Category = Text ''Food'',
              Description = Text ''lunch''\<rparr>,
             \<lparr>Date = Timestamp 2024 2 2 + 5, Amount = - 7, Category = Text ''Housing'',
              Description = Text ''keys''\<rparr>,
             \<lparr>Date = Timestamp 2024 2 2, Amount = 7, Category = Text ''Income'',
              Description = Text ''tip''\<rparr>],
          data_file = None\<rparr>"
  note months = Month_def month_2024_03_05 month_2024_03_20 month_2024_02_02
    month_2024_02_02_5 Period_M_def
  have m: "Period_M 2024 2 \<in> Month ` {r \<in> set (transactions ?S). Amount r < 0 \<and> Category r \<noteq> Missing}"
    by (rule image_eqI[where x = "\<lparr>Date = Timestamp 2024 2 2 + 5, Amount = - 7,
          Category = Text ''Housing'', Description = Text ''keys''\<rparr>"])
       (simp_all add: months)
  have c: "''Food'' \<in> {c. \<exists>r \<in> set (transactions ?S). Amount r < 0 \<and> Category r = Text c}"
    by simp
  have n: "\<not> (\<exists>r \<in> set (transactions ?S).
              Amount r < 0 \<and> Month r = Period_M 2024 2 \<and> Category r = Text ''Food'')"
    by (simp add: months)
  have m': "Period_M 2024 3 \<in> Month ` {r \<in> set (transactions ?S). Amount r < 0 \<and> Category r \<noteq> Missing}"
    by (rule image_eqI[where x = "\<lparr>Date = Timestamp 2024 3 5, Amount = - 30,
          Category = Text ''Food'', Description = Text ''lunch''\<rparr>"])
       (simp_all add: months)
  have zero: "loc (get_monthly_spending_by_category ?S) (Period_M 2024 2) ''Food'' = Some 0"
    by (rule monthly_category_matrix[where self = ?S, THEN conjunct2, THEN conjunct2,
          THEN conjunct2, THEN conjunct2, THEN conjunct2, THEN conjunct1, rule_format, OF m c n])
  have "loc (get_monthly_spending_by_category ?S) (Period_M 2024 3) ''Food'' =
        Some (sum_list (map (\<lambda>r. \<bar>Amount r\<bar>)
                (filter (\<lambda>r. Amount r < 0 \<and> Month r = Period_M 2024 3 \<and> Category r = Text ''Food'')
                   (transactions ?S))))"
    using m' c
    by (simp only: monthly_category_matrix[where self = ?S, THEN conjunct2, THEN conjunct2,
          THEN conjunct2, THEN conjunct2, THEN conjunct1, rule_format] if_True simp_thms)
  then have sum: "loc (get_monthly_spending_by_category ?S) (Period_M 2024 3) ''Food'' = Some 100"
    by (simp add: months)
  from zero sum show ?thesis ..
qed

subsection \<open>The monthly summary of income and expenses\<close>

lemma at_label_groupby_sum:
  "fillna (Fin 0) (at_label (groupby_sum key val rows) k) =
     Fin (sum_list (map val (filter (\<lambda>r. key r = k) rows)))"
proof (cases "k \<in> key ` set rows")
  case True
  then show ?thesis
    by (simp add: at_label_def map_of_groupby_sum fillna_def)
next
  case False
  then have "filter (\<lambda>r. key r = k) rows = []"
    by (auto simp: filter_empty_conv)
  with False show ?thesis
    by (simp add: at_label_def map_of_groupby_sum fillna_def)
qed

lemma month_income_sum:
  "sum_list (map Amount (filter (\<lambda>r. Month r = m) (filter (\<lambda>r. 0 < Amount r) df))) =
   sum_list (map Amount (filter (\<lambda>r. 0 < Amount r \<and> Month r = m) df))"
  by (induction df) auto

lemma month_expenses_sum:
  "sum_list (map Amount (filter (\<lambda>r. Month r = m) (expenses_of df))) =
   sum_list (map (\<lambda>r. \<bar>Amount r\<bar>) (filter (\<lambda>r. Amount r < 0 \<and> Month r = m) df))"
  by (induction df) (auto simp: expenses_of_def Month_Amount_update)

lemma map_fst_groupby_sum: "map fst (groupby_sum key val rows) = sort (remdups (map key rows))"
  by (simp add: groupby_sum_def comp_def)

lemma summary_index:
  "index_union (groupby_sum Month Amount (filter (\<lambda>r. 0 < Amount r) df))
               (groupby_sum Month Amount (expenses_of df)) =
   sorted_list_of_set (Month ` {r \<in> set df. Amount r \<noteq> 0})"
proof -
  have "set (map fst (groupby_sum Month Amount (filter (\<lambda>r. 0 < Amount r) df)) @
             map fst (groupby_sum Month Amount (expenses_of df))) =
        Month ` {r \<in> set df. Amount r \<noteq> 0}"
    by (auto simp: map_fst_groupby_sum expenses_of_def Month_Amount_update image_iff)
       (metis linorder_neqE)
  then show ?thesis
    unfolding index_union_def by (simp only: sorted_list_of_set_sort_remdups[symmetric])
qed

lemma income_vs_expenses_chart_rows:
  "get_income_vs_expenses_chart self =
     map (\<lambda>m. (m, \<lparr>Income = Fin (sum_list (map Amount (filter (\<lambda>r. 0 < Amount r \<and> Month r = m) (transactions self)))),
                   Expenses = Fin (sum_list (map (\<lambda>r. \<bar>Amount r\<bar>) (filter (\<lambda>r. Amount r < 0 \<and> Month r = m) (transactions self)))),
                   Savings = Fin (sum_list (map Amount (filter (\<lambda>r. 0 < Amount r \<and> Month r = m) (transactions self)))
                                  - sum_list (map (\<lambda>r. \<bar>Amount r\<bar>) (filter (\<lambda>r. Amount r < 0 \<and> Month r = m) (transactions self)))),
                   Savings_Rate = fillna (Fin 0) (fmul (fdiv
                       (Fin (sum_list (map Amount (filter (\<lambda>r. 0 < Amount r \<and> Month r = m) (transactions self)))
                             - sum_list (map (\<lambda>r. \<bar>Amount r\<bar>) (filter (\<lambda>r. Amount r < 0 \<and> Month r = m) (transactions self)))))
                       (Fin (sum_list (map Amount (filter (\<lambda>r. 0 < Amount r \<and> Month r = m) (transactions self))))))
                       (Fin 100))\<rparr>))
         (sorted_list_of_set (Month ` {r \<in> set (transactions self). Amount r \<noteq> 0}))"
  unfolding get_income_vs_expenses_chart_def Let_def summary_index at_label_groupby_sum
    month_income_sum month_expenses_sum
  by simp

lemma sum_list_pos_terms:
  fixes f :: "'a \<Rightarrow> rat"
  assumes "\<forall>x \<in> set xs. 0 < f x"
  shows "0 \<le> sum_list (map f xs)" and "sum_list (map f xs) = 0 \<longleftrightarrow> xs = []"
proof -
  show nn: "0 \<le> sum_list (map f xs)"
    using assms by (induction xs) (auto intro: add_nonneg_nonneg less_imp_le)
  show "sum_list (map f xs) = 0 \<longleftrightarrow> xs = []"
  proof (cases xs)
    case Nil
    then show ?thesis by simp
  next
    case (Cons x ys)
    with assms have "0 < f x" and "\<forall>y \<in> set ys. 0 < f y" by simp_all
    then have "0 \<le> sum_list (map f ys)"
      by (induction ys) (auto intro: add_nonneg_nonneg less_imp_le)
    with \<open>0 < f x\<close> have "0 < sum_list (map f (x # ys))" by simp
    with Cons show ?thesis by simp
  qed
qed

lemma month_income_zero:
  "sum_list (map Amount (filter (\<lambda>r. 0 < Amount r \<and> Month r = m) df)) = 0 \<longleftrightarrow>
   \<not> (\<exists>r \<in> set df. 0 < Amount r \<and> Month r = m)"
proof -
  have "\<forall>x \<in> set (filter (\<lambda>r. 0 < Amount r \<and> Month r = m) df). 0 < Amount x"
    by simp
  from sum_list_pos_terms(2)[OF this] show ?thesis
    by (auto simp: filter_empty_conv)
qed

lemma month_expenses_zero:
  "sum_list (map (\<lambda>r. \<bar>Amount r\<bar>) (filter (\<lambda>r. Amount r < 0 \<and> Month r = m) df)) = 0 \<longleftrightarrow>
   \<not> (\<exists>r \<in> set df. Amount r < 0 \<and> Month r = m)"
proof -
  have "\<forall>x \<in> set (filter (\<lambda>r. Amount r < 0 \<and> Month r = m) df). 0 < \<bar>Amount x\<bar>"
    by simp
  from sum_list_pos_terms(2)[OF this] show ?thesis
    by (auto simp: filter_empty_conv)
qed

lemma month_expenses_nonneg:
  "0 \<le> sum_list (map (\<lambda>r. \<bar>Amount r\<bar>) (filter (\<lambda>r. Amount r < 0 \<and> Month r = m) df))"
  by (rule sum_list_pos_terms(1)) simp

text \<open>
  C8. The rows of \<open>get_income_vs_expenses_chart\<close> are the months that have a transaction
  of amount other than 0, ascending and each once, so a month with only income or only
  expenses has its row. In every row \<open>Income\<close> is the sum of the positive amounts of the
  month, \<open>Expenses\<close> the sum of the absolute values of its negative amounts, and
  \<open>Savings\<close> is \<open>Income - Expenses\<close>; a month without expenses has \<open>Expenses = 0\<close>, a
  month without income has \<open>Income = 0\<close>.
\<close>

theorem monthly_summary_sides:
  fixes self :: dashboard
  defines "df \<equiv> transactions self"
  defines "income \<equiv> \<lambda>m. sum_list (map Amount (filter (\<lambda>r. 0 < Amount r \<and> Month r = m) df))"
  defines "expenses \<equiv> \<lambda>m. sum_list (map (\<lambda>r. \<bar>Amount r\<bar>)
                            (filter (\<lambda>r. Amount r < 0 \<and> Month r = m) df))"
  defines "chart \<equiv> get_income_vs_expenses_chart self"
  shows "map fst chart = sorted_list_of_set (Month ` {r \<in> set df. Amount r \<noteq> 0})
       \<and> (\<forall>r \<in> set df. Amount r \<noteq> 0 \<longrightarrow> (\<exists>s. (Month r, s) \<in> set chart))
       \<and> (\<forall>(m, s) \<in> set chart.
             Income s = Fin (income m) \<and> Expenses s = Fin (expenses m)
             \<and> Savings s = Fin (income m - expenses m)
             \<and> Savings s = fsub (Income s) (Expenses s))
       \<and> (\<forall>(m, s) \<in> set chart.
             \<not> (\<exists>r \<in> set df. Amount r < 0 \<and> Month r = m) \<longrightarrow> Expenses s = Fin 0)
       \<and> (\<forall>(m, s) \<in> set chart.
             \<not> (\<exists>r \<in> set df. 0 < Amount r \<and> Month r = m) \<longrightarrow> Income s = Fin 0)"
proof -
  let ?months = "Month ` {r \<in> set df. Amount r \<noteq> 0}"
  have fin: "finite ?months" by simp
  have rows: "chart = map (\<lambda>m. (m, \<lparr>Income = Fin (income m), Expenses = Fin (expenses m),
                   Savings = Fin (income m - expenses m),
                   Savings_Rate = fillna (Fin 0)
                     (fmul (fdiv (Fin (income m - expenses m)) (Fin (income m))) (Fin 100))\<rparr>))
                 (sorted_list_of_set ?months)"
    unfolding chart_def income_def expenses_def df_def by (rule income_vs_expenses_chart_rows)
  have idx: "map fst chart = sorted_list_of_set ?months"
    by (simp add: rows comp_def)
  have appears: "\<forall>r \<in> set df. Amount r \<noteq> 0 \<longrightarrow> (\<exists>s. (Month r, s) \<in> set chart)"
  proof (intro ballI impI)
    fix r assume "r \<in> set df" "Amount r \<noteq> 0"
    then have "Month r \<in> set (map fst chart)"
      using fin by (simp add: idx del: set_map)
    then show "\<exists>s. (Month r, s) \<in> set chart" by auto
  qed
  have sides: "\<forall>(m, s) \<in> set chart.
             Income s = Fin (income m) \<and> Expenses s = Fin (expenses m)
             \<and> Savings s = Fin (income m - expenses m)
             \<and> Savings s = fsub (Income s) (Expenses s)"
    by (auto simp: rows)
  have no_exp: "\<forall>(m, s) \<in> set chart.
             \<not> (\<exists>r \<in> set df. Amount r < 0 \<and> Month r = m) \<longrightarrow> Expenses s = Fin 0"
    using month_expenses_zero[of _ df] by (auto simp: rows expenses_def)
  have no_inc: "\<forall>(m, s) \<in> set chart.
             \<not> (\<exists>r \<in> set df. 0 < Amount r \<and> Month r = m) \<longrightarrow> Income s = Fin 0"
    using month_income_zero[of _ df] by (auto simp: rows income_def)
  from idx appears sides no_exp no_inc show ?thesis by blast
qed

text \<open>
  A run for C8: March has only an expense of 300, February only an income of 1000.
\<close>

theorem monthly_summary_sides_witness:
  "(\<exists>s. (Period_M 2024 3, s) \<in> set (get_income_vs_expenses_chart
            \<lparr>transactions =
               [\<lparr>Date = Timestamp 2024 3 5, Amount = - 300, Category = Text ''Housing'',
                 Description = Text ''rent''\<rparr>,
                \<lparr>Date = Timestamp 2024 2 2, Amount = 1000, Category = Text ''Income'',
                 Description = Text ''pay''\<rparr>],
             data_file = None\<rparr>)
        \<and> Income s = Fin 0 \<and> Expenses s = Fin 300 \<and> Savings s = Fin (- 300))
   \<and> (\<exists>s. (Period_M 2024 2, s) \<in> set (get_income_vs_expenses_chart
            \<lparr>transactions =
               [\<lparr>Date = Timestamp 2024 3 5, Amount = - 300, Category = Text ''Housing'',
                 Description = Text ''rent''\<rparr>,
                \<lparr>Date = Timestamp 2024 2 2, Amount = 1000, Category = Text ''Income'',
                 Description = Text ''pay''\<rparr>],
             data_file = None\<rparr>)
        \<and> Income s = Fin 1000 \<and> Expenses s = Fin 0 \<and> Savings s = Fin 1000)"
proof -
  let ?r1 = "\<lparr>Date = Timestamp 2024 3 5, Amount = - 300, Category = Text ''Housing'',
                 Description = Text ''rent''\<rparr>"
  let ?r2 = "\<lparr>Date = Timestamp 2024 2 2, Amount = 1000, Category = Text ''Income'',
                 Description = Text ''pay''\<rparr>"
  let ?S = "\<lparr>transactions = [?r1, ?r2], data_file = None\<rparr>"
  note months = Month_def month_2024_03_05 month_2024_02_02 Period_M_def
  note T = monthly_summary_sides[where self = ?S]
  note appears = T[THEN conjunct2, THEN conjunct1, rule_format]
  note sides = T[THEN conjunct2, THEN conjunct2, THEN conjunct1, THEN bspec]
  note no_exp = T[THEN conjunct2, THEN conjunct2, THEN conjunct2, THEN conjunct1, THEN bspec]
  note no_inc = T[THEN conjunct2, THEN conjunct2, THEN conjunct2, THEN conjunct2, THEN bspec]
  have "\<exists>s. (Month ?r1, s) \<in> set (get_income_vs_expenses_chart ?S)"
    by (rule appears) simp_all
  then obtain s1 where s1: "(Period_M 2024 3, s1) \<in> set (get_income_vs_expenses_chart ?S)"
    by (auto simp: months)
  have a: "Income s1 = Fin 0 \<and> Expenses s1 = Fin 300 \<and> Savings s1 = Fin (- 300)"
    using sides[OF s1] no_inc[OF s1] by (simp add: months)
  have "\<exists>s. (Month ?r2, s) \<in> set (get_income_vs_expenses_chart ?S)"
    by (rule appears) simp_all
  then obtain s2 where s2: "(Period_M 2024 2, s2) \<in> set (get_income_vs_expenses_chart ?S)"
    by (auto simp: months)
  have b: "Income s2 = Fin 1000 \<and> Expenses s2 = Fin 0 \<and> Savings s2 = Fin 1000"
    using sides[OF s2] no_exp[OF s2] by (simp add: months)
  from s1 a s2 b show ?thesis by blast
qed

lemmas summary_eval =
  get_income_vs_expenses_chart_def expenses_of_def groupby_sum_def index_union_def
  at_label_def fillna_def Month_def

text \<open>
  C1, at the input of Scenario D. A month with no income and expenses of 300 has
  \<open>Savings = -300\<close>, as the specification says, but its \<open>Savings_Rate\<close> is not 0: the division
  \<open>-300 / 0\<close> is \<open>-inf\<close> in float64, and \<open>fillna(0)\<close> replaces NaN only.
\<close>

theorem zero_income_month_savings_rate:
  "get_income_vs_expenses_chart
     \<lparr>transactions =
        [\<lparr>Date = Timestamp 2024 3 5, Amount = - 300, Category = Text ''Housing'',
          Description = Text ''rent''\<rparr>],
      data_file = None\<rparr>
   = [(Period_M 2024 3,
       \<lparr>Income = Fin 0, Expenses = Fin 300, Savings = Fin (- 300), Savings_Rate = NegInf\<rparr>)]"
  by (simp add: summary_eval month_2024_03_05)

lemma month_expenses_pos:
  assumes "r \<in> set df" "Amount r \<noteq> 0"
      and "sum_list (map Amount (filter (\<lambda>r. 0 < Amount r \<and> Month r = m) df)) = 0"
      and "Month r = m"
  shows "0 < sum_list (map (\<lambda>r. \<bar>Amount r\<bar>) (filter (\<lambda>r. Amount r < 0 \<and> Month r = m) df))"
proof -
  from assms(3) month_income_zero[of m df]
  have "\<not> (\<exists>r \<in> set df. 0 < Amount r \<and> Month r = m)"
    by blast
  with assms(1,2,4) have "Amount r < 0"
    by (metis linorder_neqE)
  with assms(1,4) have "\<exists>r \<in> set df. Amount r < 0 \<and> Month r = m" by blast
  with month_expenses_zero[of m df]
  have "sum_list (map (\<lambda>r. \<bar>Amount r\<bar>) (filter (\<lambda>r. Amount r < 0 \<and> Month r = m) df)) \<noteq> 0"
    by blast
  with month_expenses_nonneg[of m df] show ?thesis by simp
qed

text \<open>
  The savings rate of every row. A month in the summary whose income is 0 has expenses
  above 0, so its rate is always \<open>-inf\<close> and the NaN that \<open>fillna(0)\<close> would replace
  never arises; where the income is not 0 the rate is \<open>Savings / Income * 100\<close>.
\<close>

theorem savings_rate_of_month:
  "\<forall>(m, s) \<in> set (get_income_vs_expenses_chart self).
       (Income s = Fin 0 \<longrightarrow> Savings_Rate s = NegInf)
     \<and> (\<forall>i v. Income s = Fin i \<longrightarrow> i \<noteq> 0 \<longrightarrow> Savings s = Fin v \<longrightarrow>
            Savings_Rate s = Fin (v / i * 100))"
proof (intro ballI, clarify)
  fix m s
  let ?df = "transactions self"
  let ?inc = "sum_list (map Amount (filter (\<lambda>r. 0 < Amount r \<and> Month r = m) ?df))"
  let ?exp = "sum_list (map (\<lambda>r. \<bar>Amount r\<bar>) (filter (\<lambda>r. Amount r < 0 \<and> Month r = m) ?df))"
  assume "(m, s) \<in> set (get_income_vs_expenses_chart self)"
  then have m: "m \<in> Month ` {r \<in> set ?df. Amount r \<noteq> 0}"
    and s: "s = \<lparr>Income = Fin ?inc, Expenses = Fin ?exp, Savings = Fin (?inc - ?exp),
                 Savings_Rate = fillna (Fin 0) (fmul (fdiv (Fin (?inc - ?exp)) (Fin ?inc)) (Fin 100))\<rparr>"
    by (auto simp: income_vs_expenses_chart_rows)
  from m obtain r where r: "r \<in> set ?df" "Amount r \<noteq> 0" "Month r = m" by auto
  show "(Income s = Fin 0 \<longrightarrow> Savings_Rate s = NegInf)
     \<and> (\<forall>i v. Income s = Fin i \<longrightarrow> i \<noteq> 0 \<longrightarrow> Savings s = Fin v \<longrightarrow>
            Savings_Rate s = Fin (v / i * 100))"
  proof (intro conjI impI allI)
    assume "Income s = Fin 0"
    then have z: "?inc = 0" by (simp add: s)
    from month_expenses_pos[OF r(1,2) z r(3)] have "0 < ?exp" .
    with z show "Savings_Rate s = NegInf"
      by (simp add: s fillna_def)
  next
    fix i v
    assume "Income s = Fin i" "i \<noteq> 0" "Savings s = Fin v"
    then show "Savings_Rate s = Fin (v / i * 100)"
      by (auto simp: s fillna_def)
  qed
qed

lemma fin_75: "Fin (750 / 1000 * 100) = Fin 75"
  by simp

theorem savings_rate_of_month_witness:
  "(\<exists>s. (Period_M 2024 3, s) \<in> set (get_income_vs_expenses_chart
            \<lparr>transactions =
               [\<lparr>Date = Timestamp 2024 3 5, Amount = - 300, Category = Text ''Housing'',
                 Description = Text ''rent''\<rparr>,
                \<lparr>Date = Timestamp 2024 2 2, Amount = 1000, Category = Text ''Income'',
                 Description = Text ''pay''\<rparr>,
                \<lparr>Date = Timestamp 2024 2 2 + 5, Amount = - 250, Category = Text ''Food'',
                 Description = Text ''party''\<rparr>],
             data_file = None\<rparr>)
        \<and> Income s = Fin 0 \<and> Savings_Rate s = NegInf)
   \<and> (\<exists>s. (Period_M 2024 2, s) \<in> set (get_income_vs_expenses_chart
            \<lparr>transactions =
               [\<lparr>Date = Timestamp 2024 3 5, Amount = - 300, Category = Text ''Housing'',
                 Description = Text ''rent''\<rparr>,
                \<lparr>Date = Timestamp 2024 2 2, Amount = 1000, Category = Text ''Income'',
                 Description = Text ''pay''\<rparr>,
                \<lparr>Date = Timestamp 2024 2 2 + 5, Amount = - 250, Category = Text ''Food'',
                 Description = Text ''party''\<rparr>],
             data_file = None\<rparr>)
        \<and> Income s = Fin 1000 \<and> Savings s = Fin 750 \<and> Savings_Rate s = Fin 75)"
proof -
  let ?S = "\<lparr>transactions =
               [\<lparr>Date = Timestamp 2024 3 5, Amount = - 300, Category = Text ''Housing'',
                 Description = Text ''rent''\<rparr>,
                \<lparr>Date = Timestamp 2024 2 2, Amount = 1000, Category = Text ''Income'',
                 Description = Text ''pay''\<rparr>,
                \<lparr>Date = Timestamp 2024 2 2 + 5, Amount = - 250, Category = Text ''Food'',
                 Description = Text ''party''\<rparr>],
             data_file = None\<rparr>"
  note months = month_2024_03_05 month_2024_02_02 month_2024_02_02_5
  let ?s1 = "\<lparr>Income = Fin 0, Expenses = Fin 300, Savings = Fin (- 300), Savings_Rate = NegInf\<rparr>"
  let ?s2 = "\<lparr>Income = Fin 1000, Expenses = Fin 250, Savings = Fin 750, Savings_Rate = Fin 75\<rparr>"
  have chart: "get_income_vs_expenses_chart ?S = [(Period_M 2024 2, ?s2), (Period_M 2024 3, ?s1)]"
    by (simp add: summary_eval months Period_M_def)
  have s1: "(Period_M 2024 3, ?s1) \<in> set (get_income_vs_expenses_chart ?S)"
    and s2: "(Period_M 2024 2, ?s2) \<in> set (get_income_vs_expenses_chart ?S)"
    by (simp_all add: chart)
  have i1: "Income ?s1 = Fin 0" and i2: "Income ?s2 = Fin 1000" and v2: "Savings ?s2 = Fin 750"
    by simp_all
  from savings_rate_of_month[of ?S, THEN bspec, OF s1]
  have "Income ?s1 = Fin 0 \<longrightarrow> Savings_Rate ?s1 = NegInf"
    by (simp only: prod.case) (rule conjunct1)
  from this[rule_format, OF i1] i1
  have a: "Income ?s1 = Fin 0 \<and> Savings_Rate ?s1 = NegInf" by (intro conjI)
  from savings_rate_of_month[of ?S, THEN bspec, OF s2]
  have "\<forall>i v. Income ?s2 = Fin i \<longrightarrow> i \<noteq> 0 \<longrightarrow> Savings ?s2 = Fin v \<longrightarrow>
            Savings_Rate ?s2 = Fin (v / i * 100)"
    by (simp only: prod.case) (rule conjunct2)
  from this[rule_format, OF i2 _ v2]
  have "Savings_Rate ?s2 = Fin (750 / 1000 * 100)" by simp
  then have "Savings_Rate ?s2 = Fin 75" by (simp only: fin_75)
  with i2 v2
  have b: "Income ?s2 = Fin 1000 \<and> Savings ?s2 = Fin 750 \<and> Savings_Rate ?s2 = Fin 75"
    by (intro conjI)
  from s1 a s2 b show ?thesis by blast
qed

section \<open>The round trip through the file\<close>

text \<open>
  The second half of C9: applying the sign normalisation of \<open>load_data\<close> twice gives
  what applying it once gives.
\<close>

theorem sign_normalisation_idempotent:
  "expense_neg_abs (income_abs (expense_neg_abs (income_abs rows))) =
   expense_neg_abs (income_abs rows)"
  by (induction rows) (simp_all add: expense_neg_abs_def income_abs_def)

text \<open>
  C9, at a store that \<open>add_transaction\<close> produces from an empty description (the CLI
  passes on whatever \<open>input("Description: ")\<close> returns). \<open>save_data\<close> writes the
  description as an empty field, and \<open>load_data\<close> reads the empty field back as a missing
  value: the transactions loaded are not the transactions saved, in any order.
\<close>

theorem empty_description_not_reloaded:
  "add_transaction (\<lambda>s. None) (DateTs (Timestamp 2024 2 1)) 12 ''Food'' ''''
     (load_data \<lparr>now_at = (\<lambda>k. 0), randint_at = (\<lambda>k. 0), choice_at = (\<lambda>k. 0)\<rparr> (Some []))
   = Inr \<lparr>transactions =
            [\<lparr>Date = Timestamp 2024 2 1, Amount = - 12, Category = Text ''Food'',
              Description = Text ''''\<rparr>],
          data_file = Some
            [\<lparr>csv_Date = Timestamp 2024 2 1, csv_Amount = - 12, csv_Category = ''Food'',
              csv_Description = ''''\<rparr>]\<rparr>
   \<and> transactions
        (load_data \<lparr>now_at = (\<lambda>k. 0), randint_at = (\<lambda>k. 0), choice_at = (\<lambda>k. 0)\<rparr>
           (data_file (save_data
              \<lparr>transactions =
                 [\<lparr>Date = Timestamp 2024 2 1, Amount = - 12, Category = Text ''Food'',
                   Description = Text ''''\<rparr>],
               data_file = Some
                 [\<lparr>csv_Date = Timestamp 2024 2 1, csv_Amount = - 12, csv_Category = ''Food'',
                   csv_Description = ''''\<rparr>]\<rparr>)))
     = [\<lparr>Date = Timestamp 2024 2 1, Amount = - 12, Category = Text ''Food'',
         Description = Missing\<rparr>]
   \<and> mset (transactions
        (load_data \<lparr>now_at = (\<lambda>k. 0), randint_at = (\<lambda>k. 0), choice_at = (\<lambda>k. 0)\<rparr>
           (data_file (save_data
              \<lparr>transactions =
                 [\<lparr>Date = Timestamp 2024 2 1, Amount = - 12, Category = Text ''Food'',
                   Description = Text ''''\<rparr>],
               data_file = Some
                 [\<lparr>csv_Date = Timestamp 2024 2 1, csv_Amount = - 12, csv_Category = ''Food'',
                   csv_Description = ''''\<rparr>]\<rparr>))))
     \<noteq> mset [\<lparr>Date = Timestamp 2024 2 1, Amount = - 12, Category = Text ''Food'',
                Description = Text ''''\<rparr>]"
  by (simp add: store_eval)

end
